theory Spec2Isabelle
  imports Complex_Main
begin

section \<open>Shared data model\<close>

text \<open>
  \<^verbatim>\<open>type ViewKey = 'top' | 'side' | 'back'\<close>. \<open>viewKeys\<close> is the key order of the
  object literals \<^verbatim>\<open>{ top: ..., side: ..., back: ... }\<close>, which is the order in which
  \<^verbatim>\<open>Object.keys\<close> enumerates them.
\<close>

datatype ViewKey = Top | Side | Back

definition viewKeys :: "ViewKey list" where
  "viewKeys = [Top, Side, Back]"

fun viewKeyName :: "ViewKey \<Rightarrow> string" where
  "viewKeyName Top = ''top''"
| "viewKeyName Side = ''side''"
| "viewKeyName Back = ''back''"

text \<open>
  A browser \<^verbatim>\<open>File\<close>: its name, its \<^verbatim>\<open>lastModified\<close> time stamp, its MIME \<^verbatim>\<open>type\<close> and
  its bytes.
\<close>

record File =
  name :: string
  lastModified :: int
  mimeType :: string
  bytes :: string

subsection \<open>JavaScript primitives used by the components\<close>

text \<open>\<^verbatim>\<open>s.startsWith(p)\<close>.\<close>

definition startsWith :: "string \<Rightarrow> string \<Rightarrow> bool" where
  "startsWith s p = (take (length p) s = p)"

text \<open>
  \<^verbatim>\<open>xs.slice(0, e)\<close>: a negative end counts from the end of the array, and the result
  is empty when the end lies before the start.
\<close>

definition slice0 :: "'a list \<Rightarrow> int \<Rightarrow> 'a list" where
  "slice0 xs e = (if e < 0 then take (nat (int (length xs) + e)) xs else take (nat e) xs)"

text \<open>\<^verbatim>\<open>xs.join(sep)\<close> on an array of strings.\<close>

fun join :: "string \<Rightarrow> string list \<Rightarrow> string" where
  "join sep [] = []"
| "join sep [x] = x"
| "join sep (x # y # ys) = x @ sep @ join sep (y # ys)"

text \<open>The decimal text of an integer-valued number, as a template literal renders it.\<close>

fun digits :: "nat \<Rightarrow> string" where
  "digits n = (if n < 10 then [''0123456789'' ! n]
               else digits (n div 10) @ [''0123456789'' ! (n mod 10)])"

declare digits.simps [simp del]

definition numToString :: "int \<Rightarrow> string" where
  "numToString i = (if i < 0 then ''-'' @ digits (nat (- i)) else digits (nat i))"

section \<open>Manual capture and tagging (ImageUploader)\<close>

text \<open>
  \<^verbatim>\<open>type ImageFile = { id: string; file: File; preview: string }\<close> and
  \<^verbatim>\<open>type Tags = Record<ViewKey, string | null>\<close>. The component state is the pair of
  \<^verbatim>\<open>useState\<close> cells \<open>imageFiles\<close> and \<open>tags\<close>.
\<close>

record ImageFile =
  img_id :: string
  img_file :: File
  img_preview :: string

type_synonym Tags = "ViewKey \<Rightarrow> string option"

record uploader =
  imageFiles :: "ImageFile list"
  tags :: Tags

definition initialUploader :: uploader where
  "initialUploader = \<lparr>imageFiles = [], tags = (\<lambda>_. None)\<rparr>"

text \<open>
  What the browser contributes to \<open>handleFiles\<close>: the text of the \<open>k\<close>-th
  \<^verbatim>\<open>Math.random()\<close> drawn during the call, and the handle returned by
  \<^verbatim>\<open>URL.createObjectURL\<close>.
\<close>

record browser =
  mathRandom :: "nat \<Rightarrow> string"
  createObjectURL :: "File \<Rightarrow> string"

definition newImageFile :: "browser \<Rightarrow> nat \<times> File \<Rightarrow> ImageFile" where
  "newImageFile b kf = (case kf of (k, f) \<Rightarrow>
     \<lparr>img_id = name f @ ''-'' @ numToString (lastModified f) @ ''-'' @ mathRandom b k,
      img_file = f,
      img_preview = createObjectURL b f\<rparr>)"

text \<open>
  \<open>handleFiles\<close>: a \<^verbatim>\<open>null\<close> file list returns at once; otherwise the files are filtered
  by MIME type, cut to \<^verbatim>\<open>3 - imageFiles.length\<close>, wrapped and appended.
\<close>

definition handleFiles :: "browser \<Rightarrow> File list option \<Rightarrow> uploader \<Rightarrow> uploader" where
  "handleFiles b files st =
     (case files of
        None \<Rightarrow> st
      | Some fs \<Rightarrow>
          let newFiles =
                map (newImageFile b)
                  (enumerate 0
                    (slice0 (filter (\<lambda>f. startsWith (mimeType f) ''image/'') fs)
                       (3 - int (length (imageFiles st)))))
          in st\<lparr>imageFiles := imageFiles st @ newFiles\<rparr>)"

text \<open>
  The \<^verbatim>\<open>forEach\<close> over \<^verbatim>\<open>Object.keys(newTags)\<close> that both \<open>removeImage\<close> and
  \<open>handleTag\<close> run: every key holding the id is set to \<^verbatim>\<open>null\<close>.
\<close>

definition clearId :: "string \<Rightarrow> Tags \<Rightarrow> Tags" where
  "clearId i t = foldl (\<lambda>newTags key. if newTags key = Some i then newTags(key := None) else newTags)
                   t viewKeys"

definition removeImage :: "string \<Rightarrow> uploader \<Rightarrow> uploader" where
  "removeImage idToRemove st =
     st\<lparr>imageFiles := filter (\<lambda>img. img_id img \<noteq> idToRemove) (imageFiles st),
        tags := clearId idToRemove (tags st)\<rparr>"

definition handleTag :: "string \<Rightarrow> ViewKey \<Rightarrow> uploader \<Rightarrow> uploader" where
  "handleTag imageId viewKey st =
     st\<lparr>tags :=
          (if tags st viewKey = Some imageId then (tags st)(viewKey := None)
           else (clearId imageId (tags st))(viewKey := Some imageId))\<rparr>"

text \<open>The three operations of the component, and a run of them from a given state.\<close>

datatype uploaderOp =
    AddFiles browser "File list option"
  | RemoveImage string
  | TagImage string ViewKey

fun applyOp :: "uploaderOp \<Rightarrow> uploader \<Rightarrow> uploader" where
  "applyOp (AddFiles b files) st = handleFiles b files st"
| "applyOp (RemoveImage i) st = removeImage i st"
| "applyOp (TagImage i k) st = handleTag i k st"

fun applyOps :: "uploaderOp list \<Rightarrow> uploader \<Rightarrow> uploader" where
  "applyOps [] st = st"
| "applyOps (op # ops) st = applyOps ops (applyOp op st)"

text \<open>
  The two halves of the tag-map invariant: no id sits in two slots, and every id in a
  slot belongs to an image of the collection.
\<close>

definition tagsDistinct :: "uploader \<Rightarrow> bool" where
  "tagsDistinct st =
     (\<forall>k \<in> set viewKeys. \<forall>k' \<in> set viewKeys. k \<noteq> k' \<longrightarrow> tags st k \<noteq> None \<longrightarrow> tags st k \<noteq> tags st k')"

definition tagsPresent :: "uploader \<Rightarrow> bool" where
  "tagsPresent st =
     (\<forall>k \<in> set viewKeys. case tags st k of None \<Rightarrow> True
                                       | Some i \<Rightarrow> i \<in> set (map img_id (imageFiles st)))"

text \<open>
  The thumbnails, and with them the tag buttons, are rendered from \<open>imageFiles\<close> only:
  a run is \<open>offered\<close> when each of its tag operations names an image that is in the
  collection at that moment.
\<close>

fun offered :: "uploaderOp list \<Rightarrow> uploader \<Rightarrow> bool" where
  "offered [] st = True"
| "offered (op # ops) st =
     ((case op of TagImage i k \<Rightarrow> i \<in> set (map img_id (imageFiles st)) | _ \<Rightarrow> True)
      \<and> offered ops (applyOp op st))"

section \<open>Guided live scan (LiveScanner)\<close>

text \<open>
  \<^verbatim>\<open>type Step = 'idle' | ViewKey | 'done' | 'error'\<close>. A \<^verbatim>\<open>MediaStream\<close> is the list of
  its tracks; \<open>liveTracks\<close> is the set of camera tracks that have been handed out and
  not stopped yet, so \<^verbatim>\<open>track.stop()\<close> removes the track from it. The fields \<open>step\<close>,
  \<open>stream\<close> and \<open>previews\<close> are the component's \<^verbatim>\<open>useState\<close> cells, \<open>filesRef\<close> is its
  ref; \<open>emitted\<close> records the calls of \<^verbatim>\<open>onImagesChange\<close> and \<open>cameraErrors\<close> what
  \<open>startScan\<close> logs.

  Two parts of the component run later than the click that starts them. \<open>startScan\<close>
  awaits \<^verbatim>\<open>getUserMedia\<close>: \<open>pendingMedia\<close> counts the calls that have not settled.
  \<open>handleCapture\<close> hands a callback to \<^verbatim>\<open>canvas.toBlob\<close>: \<open>pendingBlobs\<close> lists the
  callbacks that have not run, each with what its closure holds, namely the \<open>step\<close> of
  the render in which the button was clicked and the \<open>stream\<close> that the \<open>stopStream\<close>
  of that render closes over. A handler that a click invokes belongs to the latest
  render, so it reads the state of the moment of the click.
\<close>

datatype Step = Idle | View ViewKey | Done | Error

type_synonym MediaStream = "nat list"

record Blob =
  blobType :: string
  blobBytes :: string

record scanner =
  step :: Step
  stream :: "MediaStream option"
  previews :: "ViewKey \<Rightarrow> string option"
  filesRef :: "ViewKey \<Rightarrow> File option"
  liveTracks :: "nat set"
  emitted :: "(ViewKey \<Rightarrow> File option) list"
  cameraErrors :: "string list"
  pendingMedia :: nat
  pendingBlobs :: "(ViewKey \<times> MediaStream option) list"

definition initialScanner :: scanner where
  "initialScanner =
     \<lparr>step = Idle, stream = None, previews = (\<lambda>_. None), filesRef = (\<lambda>_. None),
      liveTracks = {}, emitted = [], cameraErrors = [], pendingMedia = 0, pendingBlobs = []\<rparr>"

definition blobToFile :: "Blob \<Rightarrow> string \<Rightarrow> int \<Rightarrow> File" where
  "blobToFile theBlob fileName time =
     \<lparr>name = fileName, lastModified = time, mimeType = blobType theBlob, bytes = blobBytes theBlob\<rparr>"

text \<open>
  \<open>stopStream\<close>, memoised on \<open>stream\<close>: its first argument is the \<open>stream\<close> of the
  render that created the closure being called.
\<close>

definition stopStream :: "MediaStream option \<Rightarrow> scanner \<Rightarrow> scanner" where
  "stopStream closureStream s =
     (case closureStream of
        None \<Rightarrow> s
      | Some tracks \<Rightarrow>
          s\<lparr>liveTracks := foldl (\<lambda>live track. live - {track}) (liveTracks s) tracks,
             stream := None\<rparr>)"

text \<open>
  \<open>startScan\<close> up to its \<^verbatim>\<open>await\<close>: \<^verbatim>\<open>getUserMedia\<close> has been called and nothing else
  has happened. \<open>startScanResumed\<close> is the rest of the function, run when the call
  settles: with the rejection, or with the stream, whose tracks are capturing from
  then on. It tests neither \<open>step\<close> nor \<open>stream\<close>.
\<close>

definition startScan :: "scanner \<Rightarrow> scanner" where
  "startScan s = s\<lparr>pendingMedia := Suc (pendingMedia s)\<rparr>"

definition startScanResumed :: "string + MediaStream \<Rightarrow> scanner \<Rightarrow> scanner" where
  "startScanResumed acquired s =
     (case acquired of
        Inr mediaStream \<Rightarrow>
          s\<lparr>stream := Some mediaStream,
             liveTracks := liveTracks s \<union> set mediaStream,
             step := View Top\<rparr>
      | Inl err \<Rightarrow> s\<lparr>cameraErrors := cameraErrors s @ [err], step := Error\<rparr>)"

text \<open>
  What the page contributes to the click on Capture: the video element behind
  \<open>videoRef\<close> with its \<^verbatim>\<open>videoWidth\<close> and \<^verbatim>\<open>videoHeight\<close> (\<open>None\<close> when the ref is
  unset), and whether \<open>canvasRef\<close> is set. What it contributes when the callback of
  \<^verbatim>\<open>canvas.toBlob\<close> runs: the blob (\<open>None\<close> for \<^verbatim>\<open>null\<close>), the clock and the object URL of
  the blob.
\<close>

record captureEnv =
  videoRef :: "(nat \<times> nat) option"
  canvasRef :: bool

record blobResult =
  blob :: "Blob option"
  clock :: int
  objectURL :: string

text \<open>\<^verbatim>\<open>xs.indexOf(x)\<close>, which is \<open>-1\<close> when \<open>x\<close> does not occur.\<close>

fun indexOf :: "'a list \<Rightarrow> 'a \<Rightarrow> int" where
  "indexOf [] x = - 1"
| "indexOf (y # ys) x =
     (if y = x then 0 else (let r = indexOf ys x in if r < 0 then - 1 else r + 1))"

definition nextStepOrder :: "ViewKey list" where
  "nextStepOrder = [Top, Side, Back]"

text \<open>
  \<open>handleCapture\<close> up to the call of \<^verbatim>\<open>canvas.toBlob\<close>: the guards, the frame drawn on
  the canvas, and the callback handed over with the \<open>step\<close> and the \<open>stopStream\<close> of this
  render. No state of the component is written here.
\<close>

definition handleCapture :: "captureEnv \<Rightarrow> scanner \<Rightarrow> scanner" where
  "handleCapture c s =
     (if videoRef c = None \<or> \<not> canvasRef c \<or> step s = Idle \<or> step s = Done \<or> step s = Error
      then s
      else
        (case (videoRef c, step s) of
           (Some (videoWidth, videoHeight), View currentStep) \<Rightarrow>
             if videoWidth = 0 \<or> videoHeight = 0 then s
             else s\<lparr>pendingBlobs := pendingBlobs s @ [(currentStep, stream s)]\<rparr>
         | _ \<Rightarrow> s))"

text \<open>
  The callback given to \<^verbatim>\<open>canvas.toBlob\<close>, run with the blob and with the pair that its
  closure holds. \<open>filesRef\<close> and the functional update of \<open>previews\<close> act on the state
  of the moment the callback runs; \<open>currentStep\<close> and \<open>stopStream\<close> are those of the
  click.
\<close>

definition toBlobCallback :: "blobResult \<Rightarrow> ViewKey \<times> MediaStream option \<Rightarrow> scanner \<Rightarrow> scanner" where
  "toBlobCallback b closure s =
     (case blob b of
        None \<Rightarrow> s
      | Some theBlob \<Rightarrow>
          (case closure of
             (currentStep, closureStream) \<Rightarrow>
               let file = blobToFile theBlob (viewKeyName currentStep @ ''_capture.jpg'') (clock b);
                   s1 = s\<lparr>previews := (previews s)(currentStep \<mapsto> objectURL b)\<rparr>;
                   s2 = s1\<lparr>filesRef := (filesRef s1)(currentStep \<mapsto> file)\<rparr>;
                   s3 = s2\<lparr>emitted := emitted s2 @ [filesRef s2]\<rparr>;
                   currentIndex = indexOf nextStepOrder currentStep
               in if currentIndex < int (length nextStepOrder) - 1
                  then s3\<lparr>step := View (nextStepOrder ! nat (currentIndex + 1))\<rparr>
                  else stopStream closureStream (s3\<lparr>step := Done\<rparr>)))"

definition handleReset :: "scanner \<Rightarrow> scanner" where
  "handleReset s =
     (stopStream (stream s) s)
       \<lparr>step := Idle,
        previews := (\<lambda>_. None),
        filesRef := (\<lambda>_. None),
        emitted := emitted s @ [\<lambda>_. None]\<rparr>"

text \<open>
  The events of the component. A click reaches its handler when the button is
  rendered, each button only in the steps whose branch of the JSX contains it, and not
  disabled by \<open>isAnalyzing\<close> where the JSX says so; otherwise it changes nothing.
  \<open>MediaSettled\<close> is a pending \<^verbatim>\<open>getUserMedia\<close> call settling, and \<open>BlobCallback n\<close> the
  \<open>n\<close>-th pending callback of \<^verbatim>\<open>canvas.toBlob\<close> being run: the browser fixes no order
  among them. Neither is held back by the step the component is in.
\<close>

datatype scanEvent =
    ClickStartScan
  | MediaSettled "string + MediaStream"
  | ClickTryAgain
  | ClickResetScan
  | ClickCapture captureEnv
  | BlobCallback nat blobResult
  | ClickRetake

definition isScanning :: "scanner \<Rightarrow> bool" where
  "isScanning s = (step s \<in> set [View Top, View Side, View Back])"

fun dispatch :: "bool \<Rightarrow> scanEvent \<Rightarrow> scanner \<Rightarrow> scanner" where
  "dispatch isAnalyzing ClickStartScan s =
     (if step s = Idle \<and> \<not> isAnalyzing then startScan s else s)"
| "dispatch isAnalyzing (MediaSettled acquired) s =
     (if pendingMedia s = 0 then s
      else startScanResumed acquired (s\<lparr>pendingMedia := pendingMedia s - 1\<rparr>))"
| "dispatch isAnalyzing ClickTryAgain s =
     (if step s = Error then handleReset s else s)"
| "dispatch isAnalyzing ClickResetScan s =
     (if isScanning s \<and> \<not> isAnalyzing then handleReset s else s)"
| "dispatch isAnalyzing (ClickCapture c) s =
     (if isScanning s \<and> \<not> isAnalyzing then handleCapture c s else s)"
| "dispatch isAnalyzing (BlobCallback n b) s =
     (if n < length (pendingBlobs s)
      then toBlobCallback b (pendingBlobs s ! n)
             (s\<lparr>pendingBlobs := take n (pendingBlobs s) @ drop (Suc n) (pendingBlobs s)\<rparr>)
      else s)"
| "dispatch isAnalyzing ClickRetake s =
     (if step s = Done \<and> \<not> isAnalyzing then handleReset s else s)"

text \<open>A run of events, none of them while an analysis is under way.\<close>

fun run :: "scanEvent list \<Rightarrow> scanner \<Rightarrow> scanner" where
  "run [] s = s"
| "run (ev # evs) s = run evs (dispatch False ev s)"

text \<open>The phase after a capturing phase in the order top, side, back, done.\<close>

fun phaseAfter :: "ViewKey \<Rightarrow> Step" where
  "phaseAfter Top = View Side"
| "phaseAfter Side = View Back"
| "phaseAfter Back = Done"

section \<open>Analysis request (analyzeFootImage)\<close>

text \<open>
  \<^verbatim>\<open>FootImages\<close> is an object with optional keys \<open>top\<close>, \<open>side\<close> and \<open>back\<close>: a list of
  its own properties in key order, a property of value \<^verbatim>\<open>undefined\<close> being \<open>None\<close>. Thrown
  values are \<^verbatim>\<open>Error\<close> objects, known by their message. A request is the model name
  and the parts of its contents; the instruction text is fixed but for the list of
  provided views, so it is the part \<open>Instruction\<close> of that list. The response schema
  is a constant of the call and is not part of the request here.
\<close>

type_synonym FootImages = "(ViewKey \<times> File option) list"

datatype jsError = JsError string

datatype part =
    Instruction "string list"
  | TextPart string
  | InlineData "string option" string

record request =
  model :: string
  parts :: "part list"

text \<open>
  The collaborators: the \<^verbatim>\<open>FileReader\<close> (its \<^verbatim>\<open>result\<close> at \<^verbatim>\<open>loadend\<close>, \<open>None\<close> for the
  \<^verbatim>\<open>null\<close> of a failed read), the remote model (a rejection, or a response whose
  \<^verbatim>\<open>text\<close> may be \<^verbatim>\<open>undefined\<close>) and \<^verbatim>\<open>JSON.parse\<close>.
\<close>

record 'r service =
  readAsDataURL :: "File \<Rightarrow> string option"
  generateContent :: "request \<Rightarrow> jsError + string option"
  jsonParse :: "string \<Rightarrow> jsError + 'r"

text \<open>
  How the returned promise ends, and what the call did on the way: the errors written
  to the console, the requests sent to the remote model and the files read.
\<close>

datatype 'r settled = Rejected jsError | Resolved 'r | Pending

record 'r outcome =
  settled :: "'r settled"
  consoleErrors :: "jsError list"
  sent :: "request list"
  reads :: "File list"

text \<open>\<^verbatim>\<open>s.split(',')\<close> and the element \<^verbatim>\<open>[1]\<close> of the result.\<close>

fun splitComma :: "string \<Rightarrow> string list" where
  "splitComma [] = [[]]"
| "splitComma (c # cs) =
     (if c = CHR '','' then [] # splitComma cs
      else (case splitComma cs of [] \<Rightarrow> [[c]] | w # ws \<Rightarrow> (c # w) # ws))"

definition element1 :: "'a list \<Rightarrow> 'a option" where
  "element1 xs = (if 1 < length xs then Some (xs ! 1) else None)"

text \<open>\<^verbatim>\<open>s.trim()\<close>, on the ASCII white space and line terminators.\<close>

definition isWhite :: "char \<Rightarrow> bool" where
  "isWhite c = (c \<in> set [CHR '' '', CHR 0x09, CHR 0x0A, CHR 0x0B, CHR 0x0C, CHR 0x0D])"

definition trim :: "string \<Rightarrow> string" where
  "trim s = rev (dropWhile isWhite (rev (dropWhile isWhite s)))"

text \<open>
  \<open>fileToGenerativePart\<close>: the promise resolves in \<^verbatim>\<open>onloadend\<close> with the text after the
  first comma of the data URL. When the read failed, \<^verbatim>\<open>reader.result\<close> is \<^verbatim>\<open>null\<close>, the
  handler throws before it resolves, and the promise never settles: \<open>None\<close>.
\<close>

definition fileToGenerativePart :: "'r service \<Rightarrow> File \<Rightarrow> part option" where
  "fileToGenerativePart svc f =
     (case readAsDataURL svc f of
        None \<Rightarrow> None
      | Some dataURL \<Rightarrow> Some (InlineData (element1 (splitComma dataURL)) (mimeType f)))"

text \<open>
  The three \<^verbatim>\<open>if (imageFiles.view) imageParts.push(...)\<close> statements. \<open>Stuck\<close> is the
  await that never returns, with the files read up to there.
\<close>

datatype gathering = Gathered "part list" "File list" | Stuck "File list"

definition property :: "FootImages \<Rightarrow> ViewKey \<Rightarrow> File option" where
  "property images k = (case map_of images k of Some (Some f) \<Rightarrow> Some f | _ \<Rightarrow> None)"

definition pushView :: "'r service \<Rightarrow> string \<Rightarrow> File option \<Rightarrow> gathering \<Rightarrow> gathering" where
  "pushView svc label f g =
     (case g of
        Stuck rs \<Rightarrow> Stuck rs
      | Gathered ps rs \<Rightarrow>
          (case f of
             None \<Rightarrow> Gathered ps rs
           | Some f' \<Rightarrow>
               (case fileToGenerativePart svc f' of
                  None \<Rightarrow> Stuck (rs @ [f'])
                | Some p \<Rightarrow> Gathered (ps @ [TextPart label, p]) (rs @ [f']))))"

definition noImagesMessage :: string where
  "noImagesMessage = ''No images were provided for analysis.''"

definition analysisFailedMessage :: string where
  "analysisFailedMessage =
     ''Failed to analyze the image. The AI model may be unavailable or the image could not be processed.''"

text \<open>The \<^verbatim>\<open>catch\<close> block: log the error, throw the fixed one.\<close>

definition caught :: "jsError \<Rightarrow> request list \<Rightarrow> File list \<Rightarrow> 'r outcome" where
  "caught e reqs rs =
     \<lparr>settled = Rejected (JsError analysisFailedMessage), consoleErrors = [e], sent = reqs, reads = rs\<rparr>"

definition analyzeFootImage :: "'r service \<Rightarrow> FootImages \<Rightarrow> 'r outcome" where
  "analyzeFootImage svc images =
     (let providedViews = map (\<lambda>kv. viewKeyName (fst kv)) (filter (\<lambda>kv. snd kv \<noteq> None) images)
      in if length providedViews = 0 then caught (JsError noImagesMessage) [] []
         else
           (case pushView svc ''Back View (Heel) of the foot:'' (property images Back)
                   (pushView svc ''Side View (Arch) of the foot:'' (property images Side)
                     (pushView svc ''Top View of the foot:'' (property images Top)
                       (Gathered [] []))) of
              Stuck rs \<Rightarrow> \<lparr>settled = Pending, consoleErrors = [], sent = [], reads = rs\<rparr>
            | Gathered imageParts rs \<Rightarrow>
                let req = \<lparr>model = ''gemini-2.5-flash'', parts = Instruction providedViews # imageParts\<rparr>
                in (case generateContent svc req of
                      Inl e \<Rightarrow> caught e [req] rs
                    | Inr None \<Rightarrow>
                        caught (JsError ''Cannot read properties of undefined (reading trim)'') [req] rs
                    | Inr (Some text) \<Rightarrow>
                        (case jsonParse svc (trim text) of
                           Inl e \<Rightarrow> caught e [req] rs
                         | Inr result \<Rightarrow>
                             \<lparr>settled = Resolved result, consoleErrors = [], sent = [req], reads = rs\<rparr>))))"

section \<open>Consultation message (TelemedicineModal)\<close>

text \<open>
  The result as \<^verbatim>\<open>JSON.parse\<close> delivers it: \<open>archType\<close> and \<open>severity\<close> are strings at
  run time. A number is a finite value, an infinity or \<^verbatim>\<open>NaN\<close>; the zero of either sign
  is \<open>Num 0\<close>. The text that a template literal gives a number is the \<^verbatim>\<open>Number::toString\<close>
  of the language, which the functions below take as the parameter \<open>toStr\<close>.
\<close>

datatype jsNumber = Num real | PosInfinity | NegInfinity | NaN

record PotentialIssue =
  issue :: string
  severity :: string
  description :: string

record AnalysisResult =
  archType :: string
  potentialIssues :: "PotentialIssue list"
  summary :: string
  clinicalRecommendations :: "string list"
  footwearSuggestions :: "string list"
  confidenceScore :: jsNumber

text \<open>The bullet U+2022 in UTF-8, and the line feed of the template literal.\<close>

definition bullet :: string where
  "bullet = [CHR 0xE2, CHR 0x80, CHR 0xA2]"

definition nl :: string where
  "nl = [CHR 0x0A]"

text \<open>
  \<^verbatim>\<open>v || 'N/A'\<close> inside the template: on a string that may be \<^verbatim>\<open>undefined\<close>, and on a
  number that may be \<^verbatim>\<open>undefined\<close>. The empty string, zero and \<^verbatim>\<open>NaN\<close> are falsy.
\<close>

definition orNA :: "string option \<Rightarrow> string" where
  "orNA v = (case v of None \<Rightarrow> ''N/A'' | Some s \<Rightarrow> if s = [] then ''N/A'' else s)"

definition numOrNA :: "(jsNumber \<Rightarrow> string) \<Rightarrow> jsNumber option \<Rightarrow> string" where
  "numOrNA toStr v =
     (case v of
        None \<Rightarrow> ''N/A''
      | Some n \<Rightarrow> if n = Num 0 \<or> n = NaN then ''N/A'' else toStr n)"

definition formatPotentialIssues :: "PotentialIssue list option \<Rightarrow> string" where
  "formatPotentialIssues issues =
     (case issues of
        None \<Rightarrow> ''None detected''
      | Some is \<Rightarrow>
          if length is = 0 then ''None detected''
          else join nl (map (\<lambda>i. bullet @ '' '' @ issue i @ '' ('' @ severity i @ ''): '' @ description i) is))"

definition analysisSummaryForEmail :: "(jsNumber \<Rightarrow> string) \<Rightarrow> AnalysisResult option \<Rightarrow> string" where
  "analysisSummaryForEmail toStr analysisResult =
     ''--- AI Analysis Summary ---'' @ nl @ nl @
     ''Arch Type:'' @ nl @
     orNA (map_option archType analysisResult) @ nl @ nl @
     ''Potential Issues:'' @ nl @
     formatPotentialIssues (map_option potentialIssues analysisResult) @ nl @ nl @
     ''AI Summary:'' @ nl @
     orNA (map_option summary analysisResult) @ nl @ nl @
     ''Footwear Suggestions:'' @ nl @
     orNA (map_option (\<lambda>r. join nl (map (\<lambda>s. bullet @ '' '' @ s) (footwearSuggestions r))) analysisResult) @ nl @ nl @
     ''Clinical Recommendations:'' @ nl @
     orNA (map_option (\<lambda>r. join nl (map (\<lambda>s. bullet @ '' '' @ s) (clinicalRecommendations r))) analysisResult) @ nl @ nl @
     ''Confidence Score: '' @ numOrNA toStr (map_option confidenceScore analysisResult) @ ''%'' @ nl @
     ''  ''"

text \<open>
  The layout in the words of the specification, line by line: the arch type, the
  potential issues (one bulleted line \<open><issue> (<severity>): <description>\<close> each, or
  \<open>None detected\<close> for the empty list), the summary, the bulleted footwear
  suggestions, the bulleted clinical recommendations and the confidence score, with
  the placeholder \<open>N/A\<close> where a value is absent.
\<close>

definition specText :: "string \<Rightarrow> string" where
  "specText s = (if s = [] then ''N/A'' else s)"

definition specIssueLines :: "PotentialIssue list \<Rightarrow> string list" where
  "specIssueLines is =
     (if is = [] then [''None detected'']
      else map (\<lambda>i. bullet @ '' '' @ (issue i @ '' ('' @ severity i @ ''): '' @ description i)) is)"

definition specBullets :: "string list \<Rightarrow> string list" where
  "specBullets xs = (if xs = [] then [''N/A''] else map (\<lambda>s. bullet @ '' '' @ s) xs)"

definition specScore :: "(jsNumber \<Rightarrow> string) \<Rightarrow> jsNumber \<Rightarrow> string" where
  "specScore toStr n = (if n = Num 0 \<or> n = NaN then ''N/A'' else toStr n)"

definition specMessageLines :: "(jsNumber \<Rightarrow> string) \<Rightarrow> AnalysisResult \<Rightarrow> string list" where
  "specMessageLines toStr r =
     [''--- AI Analysis Summary ---'', [], ''Arch Type:'', specText (archType r), [],
      ''Potential Issues:'']
     @ specIssueLines (potentialIssues r)
     @ [[], ''AI Summary:'', specText (summary r), [], ''Footwear Suggestions:'']
     @ specBullets (footwearSuggestions r)
     @ [[], ''Clinical Recommendations:'']
     @ specBullets (clinicalRecommendations r)
     @ [[], ''Confidence Score: '' @ specScore toStr (confidenceScore r) @ ''%'', ''  '']"

definition specAbsentLines :: "string list" where
  "specAbsentLines =
     [''--- AI Analysis Summary ---'', [], ''Arch Type:'', ''N/A'', [],
      ''Potential Issues:'', ''None detected'', [],
      ''AI Summary:'', ''N/A'', [],
      ''Footwear Suggestions:'', ''N/A'', [],
      ''Clinical Recommendations:'', ''N/A'', [],
      ''Confidence Score: N/A%'', ''  '']"

section \<open>Sample inputs\<close>

definition pngFile :: File where
  "pngFile = \<lparr>name = ''a.png'', lastModified = 7, mimeType = ''image/png'', bytes = ''x''\<rparr>"

definition txtFile :: File where
  "txtFile = \<lparr>name = ''notes.txt'', lastModified = 8, mimeType = ''text/plain'', bytes = ''y''\<rparr>"

definition fixedBrowser :: browser where
  "fixedBrowser =
     \<lparr>mathRandom = (\<lambda>k. ''0.'' @ digits (Suc k)), createObjectURL = (\<lambda>f. ''blob:'' @ name f)\<rparr>"

definition sampleOps :: "uploaderOp list" where
  "sampleOps =
     [AddFiles fixedBrowser (Some [pngFile, txtFile, pngFile]),
      TagImage ''a.png-7-0.1'' Top,
      TagImage ''a.png-7-0.1'' Side,
      TagImage ''a.png-7-0.2'' Top,
      RemoveImage ''a.png-7-0.1'']"

definition readyFrame :: captureEnv where
  "readyFrame = \<lparr>videoRef = Some (1920, 1080), canvasRef = True\<rparr>"

definition firstStill :: blobResult where
  "firstStill =
     \<lparr>blob = Some \<lparr>blobType = ''image/jpeg'', blobBytes = ''first''\<rparr>,
      clock = 1700000000000, objectURL = ''blob:first''\<rparr>"

definition secondStill :: blobResult where
  "secondStill =
     \<lparr>blob = Some \<lparr>blobType = ''image/jpeg'', blobBytes = ''second''\<rparr>,
      clock = 1700000000300, objectURL = ''blob:second''\<rparr>"

text \<open>The camera is denied.\<close>

definition cameraDenied :: scanner where
  "cameraDenied = run [ClickStartScan, MediaSettled (Inl ''NotAllowedError'')] initialScanner"

text \<open>
  Start Scan, the camera granted, Capture with a ready frame, then Reset while the
  callback of \<^verbatim>\<open>canvas.toBlob\<close> has not run yet.
\<close>

definition resetBeforeCallback :: scanner where
  "resetBeforeCallback =
     run [ClickStartScan, MediaSettled (Inr [0, 1]), ClickCapture readyFrame, ClickResetScan]
       initialScanner"

text \<open>
  Start Scan, the camera granted, Capture clicked twice before the first callback
  runs, then the first callback.
\<close>

definition doubleClicked :: scanner where
  "doubleClicked =
     run [ClickStartScan, MediaSettled (Inr [0, 1]), ClickCapture readyFrame,
          ClickCapture readyFrame, BlobCallback 0 firstStill]
       initialScanner"

text \<open>
  Start Scan clicked twice while \<^verbatim>\<open>getUserMedia\<close> is pending, both calls granted, then
  one capture.
\<close>

definition doubleStarted :: scanner where
  "doubleStarted =
     run [ClickStartScan, ClickStartScan, MediaSettled (Inr [0, 1]), MediaSettled (Inr [2, 3]),
          ClickCapture readyFrame, BlobCallback 0 firstStill]
       initialScanner"

text \<open>
  Start Scan clicked twice while \<^verbatim>\<open>getUserMedia\<close> is pending, the first call granted,
  then one capture while the second call is still pending.
\<close>

definition secondGrantPending :: scanner where
  "secondGrantPending =
     run [ClickStartScan, ClickStartScan, MediaSettled (Inr [0, 1]),
          ClickCapture readyFrame, BlobCallback 0 firstStill]
       initialScanner"

definition deadService :: "unit service" where
  "deadService =
     \<lparr>readAsDataURL = (\<lambda>_. Some ''data:image/png;base64,eA==''),
      generateContent = (\<lambda>_. Inl (JsError ''503 Service Unavailable'')),
      jsonParse = (\<lambda>_. Inl (JsError ''SyntaxError''))\<rparr>"

definition garbledService :: "unit service" where
  "garbledService =
     \<lparr>readAsDataURL = (\<lambda>_. Some ''data:image/png;base64,eA==''),
      generateContent = (\<lambda>_. Inr (Some ''not json'')),
      jsonParse = (\<lambda>_. Inl (JsError ''SyntaxError''))\<rparr>"

text \<open>The text of a finite number that is an integer, enough for the samples.\<close>

definition decimalText :: "jsNumber \<Rightarrow> string" where
  "decimalText n =
     (case n of
        Num x \<Rightarrow> numToString \<lfloor>x\<rfloor>
      | PosInfinity \<Rightarrow> ''Infinity''
      | NegInfinity \<Rightarrow> ''-Infinity''
      | NaN \<Rightarrow> ''NaN'')"

definition sampleResult :: AnalysisResult where
  "sampleResult =
     \<lparr>archType = ''Flat'',
      potentialIssues = [\<lparr>issue = ''Bunion'', severity = ''Mild'', description = ''Seen in Top View''\<rparr>],
      summary = ''Low arch.'',
      clinicalRecommendations = [''Gait analysis''],
      footwearSuggestions = [''Arch support'', ''Wide toe box''],
      confidenceScore = Num 85\<rparr>"

definition blankResult :: AnalysisResult where
  "blankResult = sampleResult\<lparr>archType := [], summary := [], confidenceScore := Num 0\<rparr>"

definition emptyListsResult :: AnalysisResult where
  "emptyListsResult =
     sampleResult\<lparr>potentialIssues := [], footwearSuggestions := [], clinicalRecommendations := []\<rparr>"

section \<open>Manual capture and tagging: properties\<close>

lemma set_viewKeys: "set viewKeys = UNIV"
  unfolding viewKeys_def using ViewKey.exhaust by auto

lemma clearId_apply: "clearId i t k = (if t k = Some i then None else t k)"
  unfolding clearId_def viewKeys_def by (cases k) auto

lemma tagsDistinct_iff:
  "tagsDistinct st \<longleftrightarrow> (\<forall>k k'. k \<noteq> k' \<longrightarrow> tags st k \<noteq> None \<longrightarrow> tags st k \<noteq> tags st k')"
  unfolding tagsDistinct_def set_viewKeys by simp

lemma tagsPresent_iff:
  "tagsPresent st \<longleftrightarrow> (\<forall>k i. tags st k = Some i \<longrightarrow> i \<in> img_id ` set (imageFiles st))"
  unfolding tagsPresent_def set_viewKeys by (auto split: option.splits)

lemma imageFiles_handleFiles:
  "imageFiles (handleFiles b files st) =
     (case files of
        None \<Rightarrow> imageFiles st
      | Some fs \<Rightarrow>
          imageFiles st @ map (newImageFile b) (enumerate 0
            (slice0 (filter (\<lambda>f. startsWith (mimeType f) ''image/'') fs)
               (3 - int (length (imageFiles st))))))"
  by (simp add: handleFiles_def Let_def split: option.splits)

lemma tags_handleFiles: "tags (handleFiles b files st) = tags st"
  by (simp add: handleFiles_def Let_def split: option.splits)

lemma tagsDistinct_applyOp: "tagsDistinct st \<Longrightarrow> tagsDistinct (applyOp op st)"
proof (cases op)
  case (AddFiles b files)
  assume "tagsDistinct st"
  then show ?thesis using AddFiles by (simp add: tagsDistinct_iff tags_handleFiles)
next
  case (RemoveImage i)
  assume "tagsDistinct st"
  then show ?thesis using RemoveImage
    by (auto simp: tagsDistinct_iff removeImage_def clearId_apply split: if_splits)
next
  case (TagImage i k)
  assume "tagsDistinct st"
  then show ?thesis using TagImage
    by (auto simp: tagsDistinct_iff handleTag_def clearId_apply split: if_splits)
qed

lemma tagsPresent_applyOp:
  assumes "tagsPresent st"
    and "case op of TagImage i k \<Rightarrow> i \<in> set (map img_id (imageFiles st)) | _ \<Rightarrow> True"
  shows "tagsPresent (applyOp op st)"
proof (cases op)
  case (AddFiles b files)
  then show ?thesis using assms(1)
    by (auto simp: tagsPresent_iff tags_handleFiles imageFiles_handleFiles image_Un
          split: option.splits)
next
  case (RemoveImage i)
  then show ?thesis using assms(1)
    by (auto simp: tagsPresent_iff removeImage_def clearId_apply split: if_splits)
next
  case (TagImage i k)
  then show ?thesis using assms
    by (auto simp: tagsPresent_iff handleTag_def clearId_apply split: if_splits)
qed

lemma tagsDistinct_applyOps: "tagsDistinct st \<Longrightarrow> tagsDistinct (applyOps ops st)"
  by (induction ops arbitrary: st) (simp_all add: tagsDistinct_applyOp)

lemma tagsPresent_applyOps:
  "tagsPresent st \<Longrightarrow> offered ops st \<Longrightarrow> tagsPresent (applyOps ops st)"
proof (induction ops arbitrary: st)
  case Nil
  then show ?case by simp
next
  case (Cons op ops)
  from Cons.prems have "tagsPresent (applyOp op st)"
    by (intro tagsPresent_applyOp) simp_all
  moreover from Cons.prems have "offered ops (applyOp op st)" by simp
  ultimately show ?case using Cons.IH by simp
qed

lemma sampleOps_run:
  "imageFiles (applyOps sampleOps initialUploader) =
     [\<lparr>img_id = ''a.png-7-0.2'', img_file = pngFile, img_preview = ''blob:a.png''\<rparr>]"
  "tags (applyOps sampleOps initialUploader) Top = Some ''a.png-7-0.2''"
  "tags (applyOps sampleOps initialUploader) Side = None"
  "tags (applyOps sampleOps initialUploader) Back = None"
  by (simp_all add: sampleOps_def initialUploader_def handleFiles_def removeImage_def handleTag_def
        clearId_def viewKeys_def newImageFile_def fixedBrowser_def pngFile_def txtFile_def
        startsWith_def slice0_def numToString_def digits.simps)

text \<open>
  C1. \<open>handleTag\<close> is called from the tag buttons only, and these sit on the thumbnails
  that are rendered from \<open>imageFiles\<close>: the runs of the component are the \<open>offered\<close>
  ones, in which each tag operation names an image that is in the collection at that
  moment. On every such run from the empty state no two slots hold the same image id
  and every id in a slot belongs to an image of the collection. The first half needs
  no condition on the run.
\<close>

theorem tag_map_invariant:
  "tagsDistinct (applyOps ops initialUploader)
   \<and> (offered ops initialUploader \<longrightarrow> tagsPresent (applyOps ops initialUploader))"
proof -
  have d: "tagsDistinct initialUploader"
    by (simp add: tagsDistinct_iff initialUploader_def)
  have p: "tagsPresent initialUploader"
    by (simp add: tagsPresent_iff initialUploader_def)
  show ?thesis using tagsDistinct_applyOps [OF d] tagsPresent_applyOps [OF p] by blast
qed

theorem tag_map_invariant_witness:
  "offered sampleOps initialUploader
   \<and> tagsDistinct (applyOps sampleOps initialUploader)
   \<and> tagsPresent (applyOps sampleOps initialUploader)"
proof -
  have o: "offered sampleOps initialUploader"
    by (simp add: sampleOps_def initialUploader_def handleFiles_def removeImage_def handleTag_def
          clearId_def viewKeys_def newImageFile_def fixedBrowser_def pngFile_def txtFile_def
          startsWith_def slice0_def numToString_def digits.simps)
  show ?thesis using o tag_map_invariant [of sampleOps] by blast
qed

lemma length_slice0: "0 \<le> e \<Longrightarrow> length (slice0 xs e) \<le> nat e"
  by (simp add: slice0_def)

lemma length_handleFiles:
  "length (imageFiles st) \<le> 3 \<Longrightarrow> length (imageFiles (handleFiles b files st)) \<le> 3"
proof (cases files)
  case None
  assume "length (imageFiles st) \<le> 3"
  with None show ?thesis by (simp add: handleFiles_def)
next
  case (Some fs)
  assume le: "length (imageFiles st) \<le> 3"
  have "length (slice0 (filter (\<lambda>f. startsWith (mimeType f) ''image/'') fs)
                  (3 - int (length (imageFiles st))))
          \<le> nat (3 - int (length (imageFiles st)))"
    using le by (intro length_slice0) simp
  with le Some show ?thesis by (simp add: imageFiles_handleFiles)
qed

lemma length_applyOp:
  "length (imageFiles st) \<le> 3 \<Longrightarrow> length (imageFiles (applyOp op st)) \<le> 3"
proof (cases op)
  case (AddFiles b files)
  assume "length (imageFiles st) \<le> 3"
  with AddFiles show ?thesis by (simp add: length_handleFiles)
next
  case (RemoveImage i)
  assume le: "length (imageFiles st) \<le> 3"
  have "length (filter (\<lambda>img. img_id img \<noteq> i) (imageFiles st)) \<le> length (imageFiles st)"
    by (rule length_filter_le)
  then have "length (filter (\<lambda>img. img_id img \<noteq> i) (imageFiles st)) \<le> 3"
    using le by (rule order_trans)
  with RemoveImage show ?thesis by (simp add: removeImage_def)
next
  case (TagImage i k)
  assume "length (imageFiles st) \<le> 3"
  with TagImage show ?thesis by (simp add: handleTag_def)
qed

lemma length_applyOps:
  "length (imageFiles st) \<le> 3 \<Longrightarrow> length (imageFiles (applyOps ops st)) \<le> 3"
  by (induction ops arbitrary: st) (simp_all add: length_applyOp)

lemma files_handleFiles:
  assumes "length (imageFiles st) \<le> 3"
  shows "map img_file (imageFiles (handleFiles b (Some fs) st)) =
           map img_file (imageFiles st)
           @ take (3 - length (imageFiles st))
               (filter (\<lambda>f. startsWith (mimeType f) ''image/'') fs)"
proof -
  have e: "nat (3 - int (length (imageFiles st))) = 3 - length (imageFiles st)"
    by simp
  have m: "map img_file (map (newImageFile b) (enumerate 0 xs)) = xs" for xs
    by (simp add: newImageFile_def comp_def case_prod_unfold)
  show ?thesis using assms
    by (simp add: imageFiles_handleFiles slice0_def m e del: map_map)
qed

text \<open>
  C7. After any run of the operations from the empty state, and so after any run of
  \<open>addFiles\<close> calls, the collection holds at most three images. A further call keeps
  the images held and appends, in order, the image-typed files up to the free
  capacity; every other file is dropped. The call returns a state in every case,
  also for the \<^verbatim>\<open>null\<close> file list, which changes nothing: there is no error result.
\<close>

theorem add_files_cap:
  "length (imageFiles (applyOps ops initialUploader)) \<le> 3
   \<and> map img_file (imageFiles (handleFiles b (Some fs) (applyOps ops initialUploader))) =
       map img_file (imageFiles (applyOps ops initialUploader))
       @ take (3 - length (imageFiles (applyOps ops initialUploader)))
           (filter (\<lambda>f. startsWith (mimeType f) ''image/'') fs)
   \<and> handleFiles b None (applyOps ops initialUploader) = applyOps ops initialUploader"
proof -
  have l: "length (imageFiles (applyOps ops initialUploader)) \<le> 3"
    by (rule length_applyOps) (simp add: initialUploader_def)
  show ?thesis using l files_handleFiles [OF l] by (simp add: handleFiles_def)
qed

theorem add_files_cap_witness:
  "map img_file
     (imageFiles
        (handleFiles fixedBrowser (Some [txtFile, pngFile, pngFile, pngFile])
           (applyOps [AddFiles fixedBrowser (Some [pngFile, txtFile, pngFile])] initialUploader)))
   = [pngFile, pngFile, pngFile]"
proof -
  have two: "map img_file (imageFiles
               (applyOps [AddFiles fixedBrowser (Some [pngFile, txtFile, pngFile])] initialUploader))
             = [pngFile, pngFile]"
    by (simp add: initialUploader_def handleFiles_def newImageFile_def startsWith_def slice0_def
          pngFile_def txtFile_def)
  have "length (map img_file (imageFiles
               (applyOps [AddFiles fixedBrowser (Some [pngFile, txtFile, pngFile])] initialUploader)))
          = 2"
    by (simp only: two) simp
  then have n: "length (imageFiles
               (applyOps [AddFiles fixedBrowser (Some [pngFile, txtFile, pngFile])] initialUploader))
          = 2"
    by simp
  have f: "filter (\<lambda>f. startsWith (mimeType f) ''image/'') [txtFile, pngFile, pngFile, pngFile]
             = [pngFile, pngFile, pngFile]"
    by (simp add: startsWith_def pngFile_def txtFile_def)
  show ?thesis
    using add_files_cap [of "[AddFiles fixedBrowser (Some [pngFile, txtFile, pngFile])]"
                            fixedBrowser "[txtFile, pngFile, pngFile, pngFile]"]
    by (simp only: two n f) simp
qed

text \<open>
  C8, as the code has it. Two successive calls of \<open>tagImage\<close> with the same image and
  slot leave the slot unassigned when the slot did not hold that image before; when it
  did, the first call untags it and the second tags it again, so the slot ends up
  holding the image.
\<close>

theorem tag_twice:
  "(tags st k \<noteq> Some i \<longrightarrow> tags (handleTag i k (handleTag i k st)) k = None)
   \<and> (tags st k = Some i \<longrightarrow> tags (handleTag i k (handleTag i k st)) k = Some i)"
  by (simp add: handleTag_def clearId_apply)

theorem tag_twice_witness:
  "tags initialUploader Top \<noteq> Some ''a.png-7-0.1''
   \<and> tags (handleTag ''a.png-7-0.1'' Top (handleTag ''a.png-7-0.1'' Top initialUploader)) Top = None
   \<and> tags (applyOps sampleOps initialUploader) Top = Some ''a.png-7-0.2''
   \<and> tags (handleTag ''a.png-7-0.2'' Top
             (handleTag ''a.png-7-0.2'' Top (applyOps sampleOps initialUploader))) Top
       = Some ''a.png-7-0.2''"
proof -
  have a: "tags initialUploader Top \<noteq> Some ''a.png-7-0.1''"
    by (simp add: initialUploader_def)
  have b: "tags (applyOps sampleOps initialUploader) Top = Some ''a.png-7-0.2''"
    by (rule sampleOps_run)
  show ?thesis
    using a b tag_twice [of initialUploader Top "''a.png-7-0.1''"]
      tag_twice [of "applyOps sampleOps initialUploader" Top "''a.png-7-0.2''"]
    by blast
qed

text \<open>
  C8 as stated fails: with the image already in the top slot, tagging it for the top
  slot twice more leaves the slot assigned.
\<close>

theorem tag_twice_counterexample:
  "tags (handleTag ''a.png-7-0.1'' Top
          (handleTag ''a.png-7-0.1'' Top
             (applyOps [AddFiles fixedBrowser (Some [pngFile]), TagImage ''a.png-7-0.1'' Top]
                initialUploader))) Top
   = Some ''a.png-7-0.1''"
  by (simp add: initialUploader_def handleFiles_def handleTag_def clearId_def viewKeys_def)

section \<open>Guided live scan: properties\<close>

lemmas scan_eval =
  initialScanner_def startScan_def startScanResumed_def handleCapture_def toBlobCallback_def
  handleReset_def stopStream_def isScanning_def nextStepOrder_def blobToFile_def Let_def
  readyFrame_def firstStill_def secondStill_def

lemma stop_tracks: "foldl (\<lambda>live track. live - {track}) L ts = L - set ts"
  by (induction ts arbitrary: L) auto

lemma stopStream_fields:
  "step (stopStream c s) = step s"
  "previews (stopStream c s) = previews s"
  "filesRef (stopStream c s) = filesRef s"
  "emitted (stopStream c s) = emitted s"
  "cameraErrors (stopStream c s) = cameraErrors s"
  "pendingMedia (stopStream c s) = pendingMedia s"
  "pendingBlobs (stopStream c s) = pendingBlobs s"
  "stream (stopStream c s) = (case c of None \<Rightarrow> stream s | Some ts \<Rightarrow> None)"
  "liveTracks (stopStream c s) = liveTracks s - (case c of None \<Rightarrow> {} | Some ts \<Rightarrow> set ts)"
  by (simp_all add: stopStream_def stop_tracks split: option.splits)

lemma handleReset_fields:
  "step (handleReset s) = Idle"
  "previews (handleReset s) = (\<lambda>_. None)"
  "filesRef (handleReset s) = (\<lambda>_. None)"
  "stream (handleReset s) = None"
  "liveTracks (handleReset s) = liveTracks s - (case stream s of None \<Rightarrow> {} | Some ts \<Rightarrow> set ts)"
  "pendingMedia (handleReset s) = pendingMedia s"
  "pendingBlobs (handleReset s) = pendingBlobs s"
  by (simp_all add: handleReset_def stopStream_fields split: option.splits)

lemma handleCapture_writes_nothing:
  "step (handleCapture c s) = step s"
  "filesRef (handleCapture c s) = filesRef s"
  "previews (handleCapture c s) = previews s"
  "stream (handleCapture c s) = stream s"
  "liveTracks (handleCapture c s) = liveTracks s"
  by (simp_all add: handleCapture_def split: option.splits prod.splits Step.splits)

lemma toBlobCallback_slot:
  assumes "blob b = Some theBlob"
  shows "filesRef (toBlobCallback b (k, c) s) =
           (filesRef s)(k \<mapsto> blobToFile theBlob (viewKeyName k @ ''_capture.jpg'') (clock b))"
    and "previews (toBlobCallback b (k, c) s) = (previews s)(k \<mapsto> objectURL b)"
    and "step (toBlobCallback b (k, c) s) = phaseAfter k"
  using assms
  by (cases k; simp add: toBlobCallback_def nextStepOrder_def Let_def stopStream_fields)+

text \<open>
  C2. The still is stored by the callback of \<^verbatim>\<open>canvas.toBlob\<close>, which runs after the
  click and works with the step of the click, not with the step of the machine at that
  moment. With Reset clicked before the callback runs, the machine is idle with the top
  slot empty; the callback then stores the still in the top slot and takes the machine
  from idle to side, with no stream held. With Capture clicked twice before the first
  callback runs, the machine is in side after the first callback, and the second
  callback stores its still in the top slot, the side slot staying empty and the
  machine staying in side. With Start Scan clicked twice while the camera request is
  pending, the second grant, arriving when the machine is in side, puts it back in top;
  no reset takes part in the last two runs.
\<close>

theorem stale_capture_callback:
  "step resetBeforeCallback = Idle
   \<and> filesRef resetBeforeCallback Top = None
   \<and> step (dispatch False (BlobCallback 0 firstStill) resetBeforeCallback) = View Side
   \<and> filesRef (dispatch False (BlobCallback 0 firstStill) resetBeforeCallback) Top
       = Some \<lparr>name = ''top_capture.jpg'', lastModified = 1700000000000,
               mimeType = ''image/jpeg'', bytes = ''first''\<rparr>
   \<and> stream (dispatch False (BlobCallback 0 firstStill) resetBeforeCallback) = None
   \<and> step doubleClicked = View Side
   \<and> filesRef (dispatch False (BlobCallback 0 secondStill) doubleClicked) Top
       = Some \<lparr>name = ''top_capture.jpg'', lastModified = 1700000000300,
               mimeType = ''image/jpeg'', bytes = ''second''\<rparr>
   \<and> filesRef (dispatch False (BlobCallback 0 secondStill) doubleClicked) Side = None
   \<and> step (dispatch False (BlobCallback 0 secondStill) doubleClicked) = View Side
   \<and> step secondGrantPending = View Side
   \<and> step (dispatch False (MediaSettled (Inr [2, 3])) secondGrantPending) = View Top"
  by (simp add: resetBeforeCallback_def doubleClicked_def secondGrantPending_def scan_eval)

text \<open>
  C6. Reset sets idle, clears the files and the previews, and stops the tracks of the
  stream that the component holds. With Start Scan clicked twice while the camera
  request is pending and both requests granted, the second stream replaces the first in
  \<open>stream\<close> and the tracks of the first are stopped by nothing: after a capture, reset in
  capturing(side) leaves the machine idle with files and previews cleared and no
  stream held, and the tracks 0 and 1 of the first stream still live.
\<close>

theorem leaked_stream_survives_reset:
  "step doubleStarted = View Side
   \<and> stream doubleStarted = Some [2, 3]
   \<and> liveTracks doubleStarted = {0, 1, 2, 3}
   \<and> filesRef doubleStarted Top
       = Some \<lparr>name = ''top_capture.jpg'', lastModified = 1700000000000,
               mimeType = ''image/jpeg'', bytes = ''first''\<rparr>
   \<and> step (dispatch False ClickResetScan doubleStarted) = Idle
   \<and> filesRef (dispatch False ClickResetScan doubleStarted) = (\<lambda>_. None)
   \<and> previews (dispatch False ClickResetScan doubleStarted) = (\<lambda>_. None)
   \<and> stream (dispatch False ClickResetScan doubleStarted) = None
   \<and> liveTracks (dispatch False ClickResetScan doubleStarted) = {0, 1}"
  by (auto simp add: doubleStarted_def scan_eval)

lemma step_cameraDenied: "step cameraDenied = Error"
  by (simp add: cameraDenied_def scan_eval)

text \<open>
  C5, as the code has it. In the error state the retry button runs the reset: the
  machine goes to idle, holding no stream, and no camera request is made. Acquisition
  is attempted again by the start action that idle offers, which leads to
  capturing(top) when the camera is granted and back to error when it is not.
\<close>

theorem try_again_returns_to_idle:
  assumes "step s = Error"
  shows "step (dispatch a ClickTryAgain s) = Idle
       \<and> stream (dispatch a ClickTryAgain s) = None
       \<and> liveTracks (dispatch a ClickTryAgain s) \<subseteq> liveTracks s
       \<and> pendingMedia (dispatch a ClickTryAgain s) = pendingMedia s
       \<and> step (dispatch a' (MediaSettled (Inr ms))
                 (dispatch False ClickStartScan (dispatch a ClickTryAgain s))) = View Top
       \<and> step (dispatch a' (MediaSettled (Inl e))
                 (dispatch False ClickStartScan (dispatch a ClickTryAgain s))) = Error"
  using assms by (auto simp: handleReset_fields startScan_def startScanResumed_def)

theorem try_again_returns_to_idle_witness:
  "step cameraDenied = Error
   \<and> step (dispatch False ClickTryAgain cameraDenied) = Idle
   \<and> step (dispatch False (MediaSettled (Inr [2]))
             (dispatch False ClickStartScan (dispatch False ClickTryAgain cameraDenied)))
       = View Top"
  using step_cameraDenied try_again_returns_to_idle [OF step_cameraDenied, of False False "[2]"]
  by blast

text \<open>
  C5 as stated fails: after a denied camera, the retry action leaves the machine in a
  step other than capturing(top).
\<close>

theorem try_again_counterexample:
  "step (dispatch False ClickTryAgain
           (run [ClickStartScan, MediaSettled (Inl ''NotAllowedError'')] initialScanner))
   = Idle
   \<and> step (dispatch False ClickTryAgain
           (run [ClickStartScan, MediaSettled (Inl ''NotAllowedError'')] initialScanner))
   \<noteq> View Top"
  by (simp add: scan_eval)

section \<open>Analysis request: properties\<close>

text \<open>
  C3. For the image set \<^verbatim>\<open>{}\<close> the call reads no file and sends no request: the
  no-images error is thrown at once. It is thrown inside the \<^verbatim>\<open>try\<close> block, so the
  \<^verbatim>\<open>catch\<close> block logs it and the promise is rejected with the error of the \<^verbatim>\<open>catch\<close>
  block, not with the no-images error.
\<close>

theorem empty_image_set_outcome:
  "analyzeFootImage svc [] =
     \<lparr>settled = Rejected (JsError analysisFailedMessage),
      consoleErrors = [JsError ''No images were provided for analysis.''],
      sent = [], reads = []\<rparr>
   \<and> settled (analyzeFootImage svc []) \<noteq> Rejected (JsError ''No images were provided for analysis.'')"
  by (simp add: analyzeFootImage_def caught_def noImagesMessage_def analysisFailedMessage_def)

text \<open>
  C4. The error that reaches the caller for the image set \<^verbatim>\<open>{}\<close> carries the same
  message as the one for a remote failure and for a response that does not parse; the
  message written for the missing images is a different text.
\<close>

theorem no_images_message_is_generic:
  "settled (analyzeFootImage svc []) = Rejected (JsError analysisFailedMessage)
   \<and> settled (analyzeFootImage deadService [(Side, Some pngFile)])
       = Rejected (JsError analysisFailedMessage)
   \<and> settled (analyzeFootImage garbledService [(Side, Some pngFile)])
       = Rejected (JsError analysisFailedMessage)
   \<and> analysisFailedMessage \<noteq> noImagesMessage"
  by (simp add: analyzeFootImage_def caught_def analysisFailedMessage_def noImagesMessage_def
        deadService_def garbledService_def pushView_def property_def fileToGenerativePart_def)

section \<open>Consultation message: properties\<close>

lemma join_Cons: "xs \<noteq> [] \<Longrightarrow> join sep (x # xs) = x @ sep @ join sep xs"
  by (cases xs) simp_all

lemma join_append:
  "xs \<noteq> [] \<Longrightarrow> ys \<noteq> [] \<Longrightarrow> join sep (xs @ ys) = join sep xs @ sep @ join sep ys"
proof (induction xs)
  case Nil
  then show ?case by simp
next
  case (Cons x xs)
  show ?case
  proof (cases "xs = []")
    case True
    with Cons.prems show ?thesis by (simp add: join_Cons)
  next
    case False
    with Cons show ?thesis by (simp add: join_Cons)
  qed
qed

lemma join_bullets_nonempty:
  "xs \<noteq> [] \<Longrightarrow> join nl (map (\<lambda>s. bullet @ '' '' @ s) xs) \<noteq> []"
proof (cases xs)
  case Nil
  assume "xs \<noteq> []"
  with Nil show ?thesis by simp
next
  case (Cons x ys)
  then show ?thesis by (cases ys) (simp_all add: bullet_def)
qed

lemma issues_text: "formatPotentialIssues (Some is) = join nl (specIssueLines is)"
  by (simp add: formatPotentialIssues_def specIssueLines_def)

lemma bullets_text:
  "orNA (Some (join nl (map (\<lambda>s. bullet @ '' '' @ s) xs))) = join nl (specBullets xs)"
proof (cases "xs = []")
  case True
  then show ?thesis by (simp add: orNA_def specBullets_def)
next
  case False
  then show ?thesis
    using join_bullets_nonempty [OF False] by (simp add: orNA_def specBullets_def)
qed

lemma field_text: "orNA (Some s) = specText s"
  by (simp add: orNA_def specText_def)

lemma score_text: "numOrNA toStr (Some n) = specScore toStr n"
  by (simp add: numOrNA_def specScore_def)

lemma spec_lines_nonempty:
  "specIssueLines is \<noteq> []" "specBullets xs \<noteq> []"
  by (simp_all add: specIssueLines_def specBullets_def)

lemma layout_present:
  "analysisSummaryForEmail toStr (Some r) = join nl (specMessageLines toStr r)"
  unfolding analysisSummaryForEmail_def specMessageLines_def
  apply (simp only: option.map)
  apply (simp only: issues_text bullets_text score_text)
  apply (simp only: field_text)
  apply (simp add: join_append join_Cons spec_lines_nonempty del: join.simps(3))
  done

lemma layout_absent: "analysisSummaryForEmail toStr None = join nl specAbsentLines"
  by (simp add: analysisSummaryForEmail_def specAbsentLines_def orNA_def numOrNA_def
        formatPotentialIssues_def)

lemma emptyLists_lines:
  "specMessageLines decimalText emptyListsResult =
     [''--- AI Analysis Summary ---'', [], ''Arch Type:'', ''Flat'', [],
      ''Potential Issues:'', ''None detected'', [],
      ''AI Summary:'', ''Low arch.'', [],
      ''Footwear Suggestions:'', ''N/A'', [],
      ''Clinical Recommendations:'', ''N/A'', [],
      ''Confidence Score: 85%'', ''  '']"
  by (simp add: specMessageLines_def emptyListsResult_def sampleResult_def specText_def
        specIssueLines_def specBullets_def specScore_def decimalText_def numToString_def
        digits.simps)

lemma sample_message:
  "analysisSummaryForEmail decimalText (Some sampleResult) =
     ''--- AI Analysis Summary ---\<newline>\<newline>Arch Type:\<newline>Flat\<newline>\<newline>Potential Issues:\<newline>''
     @ bullet @ '' Bunion (Mild): Seen in Top View\<newline>\<newline>AI Summary:\<newline>Low arch.\<newline>\<newline>Footwear Suggestions:\<newline>''
     @ bullet @ '' Arch support\<newline>'' @ bullet @ '' Wide toe box\<newline>\<newline>Clinical Recommendations:\<newline>''
     @ bullet @ '' Gait analysis\<newline>\<newline>Confidence Score: 85%\<newline>  ''"
  by (simp add: analysisSummaryForEmail_def sampleResult_def formatPotentialIssues_def orNA_def
        numOrNA_def decimalText_def numToString_def digits.simps nl_def bullet_def)

lemma blank_message:
  "analysisSummaryForEmail toStr (Some blankResult) =
     ''--- AI Analysis Summary ---\<newline>\<newline>Arch Type:\<newline>N/A\<newline>\<newline>Potential Issues:\<newline>''
     @ bullet @ '' Bunion (Mild): Seen in Top View\<newline>\<newline>AI Summary:\<newline>N/A\<newline>\<newline>Footwear Suggestions:\<newline>''
     @ bullet @ '' Arch support\<newline>'' @ bullet @ '' Wide toe box\<newline>\<newline>Clinical Recommendations:\<newline>''
     @ bullet @ '' Gait analysis\<newline>\<newline>Confidence Score: N/A%\<newline>  ''"
  by (simp add: analysisSummaryForEmail_def blankResult_def sampleResult_def
        formatPotentialIssues_def orNA_def numOrNA_def nl_def bullet_def)

text \<open>
  C9. The message is a function of the result and of nothing else. For every result
  it is, line by line, the layout of the specification: the arch type, the potential
  issues, the summary, the footwear suggestions, the clinical recommendations and the
  confidence score, in this order, each issue on a bulleted line
  \<open><issue> (<severity>): <description>\<close>, with \<open>N/A\<close> for an empty text, an empty list of
  suggestions or recommendations and a falsy score; without a result every value is
  its placeholder. For the empty list of issues the text \<open>None detected\<close> stands
  between the heading of the issues and that of the summary.
\<close>

theorem message_layout:
  "analysisSummaryForEmail toStr (Some r) = join nl (specMessageLines toStr r)
   \<and> analysisSummaryForEmail toStr None = join nl specAbsentLines
   \<and> formatPotentialIssues (Some []) = ''None detected''
   \<and> (potentialIssues r = [] \<longrightarrow>
        (\<exists>before after. analysisSummaryForEmail toStr (Some r) =
           before @ ''Potential Issues:'' @ nl @ ''None detected'' @ nl @ nl
           @ ''AI Summary:'' @ after))"
proof -
  have none: "formatPotentialIssues (Some []) = ''None detected''"
    by (simp add: formatPotentialIssues_def)
  have "\<exists>before after. analysisSummaryForEmail toStr (Some r) =
               before @ ''Potential Issues:'' @ nl @ ''None detected'' @ nl @ nl
               @ ''AI Summary:'' @ after"
    if e: "potentialIssues r = []"
  proof -
    have "analysisSummaryForEmail toStr (Some r) =
            (''--- AI Analysis Summary ---'' @ nl @ nl @ ''Arch Type:'' @ nl
               @ orNA (Some (archType r)) @ nl @ nl)
            @ ''Potential Issues:'' @ nl @ ''None detected'' @ nl @ nl @ ''AI Summary:''
            @ (nl @ orNA (Some (summary r)) @ nl @ nl @ ''Footwear Suggestions:'' @ nl
               @ orNA (Some (join nl (map (\<lambda>s. bullet @ '' '' @ s) (footwearSuggestions r))))
               @ nl @ nl @ ''Clinical Recommendations:'' @ nl
               @ orNA (Some (join nl (map (\<lambda>s. bullet @ '' '' @ s) (clinicalRecommendations r))))
               @ nl @ nl @ ''Confidence Score: '' @ numOrNA toStr (Some (confidenceScore r)) @ ''%''
               @ nl @ ''  '')"
      by (simp add: analysisSummaryForEmail_def e none)
    then show ?thesis by blast
  qed
  with layout_present [of toStr r] layout_absent [of toStr] none show ?thesis by blast
qed

theorem message_layout_witness:
  "potentialIssues emptyListsResult = []
   \<and> analysisSummaryForEmail decimalText (Some emptyListsResult) =
       join nl
         [''--- AI Analysis Summary ---'', [], ''Arch Type:'', ''Flat'', [],
          ''Potential Issues:'', ''None detected'', [],
          ''AI Summary:'', ''Low arch.'', [],
          ''Footwear Suggestions:'', ''N/A'', [],
          ''Clinical Recommendations:'', ''N/A'', [],
          ''Confidence Score: 85%'', ''  '']
   \<and> (\<exists>before after. analysisSummaryForEmail decimalText (Some emptyListsResult) =
           before @ ''Potential Issues:'' @ nl @ ''None detected'' @ nl @ nl
           @ ''AI Summary:'' @ after)"
proof -
  have h: "potentialIssues emptyListsResult = []"
    by (simp add: emptyListsResult_def)
  show ?thesis
    using h message_layout [of decimalText emptyListsResult]
    unfolding emptyLists_lines by blast
qed

text \<open>
  C10. A result whose arch type is the empty string renders exactly as a result whose
  arch type is the text \<open>N/A\<close>, with \<open>N/A\<close> on the line under the heading of the arch
  type, and likewise for the summary; a result whose confidence score is zero renders
  the last line as \<open>Confidence Score: N/A%\<close>.
\<close>

theorem falsy_fields_render_placeholder:
  "(archType r = [] \<longrightarrow>
      analysisSummaryForEmail toStr (Some r)
        = analysisSummaryForEmail toStr (Some (r\<lparr>archType := ''N/A''\<rparr>))
      \<and> (\<exists>after. analysisSummaryForEmail toStr (Some r) =
            ''--- AI Analysis Summary ---'' @ nl @ nl @ ''Arch Type:'' @ nl @ ''N/A'' @ nl @ nl
            @ ''Potential Issues:'' @ after))
   \<and> (summary r = [] \<longrightarrow>
      analysisSummaryForEmail toStr (Some r)
        = analysisSummaryForEmail toStr (Some (r\<lparr>summary := ''N/A''\<rparr>))
      \<and> (\<exists>before after. analysisSummaryForEmail toStr (Some r) =
            before @ ''AI Summary:'' @ nl @ ''N/A'' @ nl @ nl @ ''Footwear Suggestions:'' @ after))
   \<and> (confidenceScore r = Num 0 \<longrightarrow>
      (\<exists>before. analysisSummaryForEmail toStr (Some r)
                  = before @ ''Confidence Score: N/A%'' @ nl @ ''  ''))"
proof -
  have arch: "\<exists>after. analysisSummaryForEmail toStr (Some r) =
            ''--- AI Analysis Summary ---'' @ nl @ nl @ ''Arch Type:'' @ nl @ ''N/A'' @ nl @ nl
            @ ''Potential Issues:'' @ after"
    if "archType r = []"
    using that by (simp add: analysisSummaryForEmail_def orNA_def)
  have summ: "\<exists>before after. analysisSummaryForEmail toStr (Some r) =
            before @ ''AI Summary:'' @ nl @ ''N/A'' @ nl @ nl @ ''Footwear Suggestions:'' @ after"
    if e: "summary r = []"
  proof -
    have "analysisSummaryForEmail toStr (Some r) =
            (''--- AI Analysis Summary ---'' @ nl @ nl @ ''Arch Type:'' @ nl
               @ orNA (Some (archType r)) @ nl @ nl @ ''Potential Issues:'' @ nl
               @ formatPotentialIssues (Some (potentialIssues r)) @ nl @ nl)
            @ ''AI Summary:'' @ nl @ ''N/A'' @ nl @ nl @ ''Footwear Suggestions:''
            @ (nl @ orNA (Some (join nl (map (\<lambda>s. bullet @ '' '' @ s) (footwearSuggestions r))))
               @ nl @ nl @ ''Clinical Recommendations:'' @ nl
               @ orNA (Some (join nl (map (\<lambda>s. bullet @ '' '' @ s) (clinicalRecommendations r))))
               @ nl @ nl @ ''Confidence Score: '' @ numOrNA toStr (Some (confidenceScore r)) @ ''%''
               @ nl @ ''  '')"
      by (simp add: analysisSummaryForEmail_def e orNA_def)
    then show ?thesis by blast
  qed
  have conf: "\<exists>before. analysisSummaryForEmail toStr (Some r)
                = before @ ''Confidence Score: N/A%'' @ nl @ ''  ''"
    if "confidenceScore r = Num 0"
    using that by (auto simp: analysisSummaryForEmail_def numOrNA_def)
  have same: "analysisSummaryForEmail toStr (Some r)
                = analysisSummaryForEmail toStr (Some (r\<lparr>archType := ''N/A''\<rparr>))"
    if "archType r = []"
    using that by (simp add: analysisSummaryForEmail_def orNA_def)
  have same': "analysisSummaryForEmail toStr (Some r)
                = analysisSummaryForEmail toStr (Some (r\<lparr>summary := ''N/A''\<rparr>))"
    if "summary r = []"
    using that by (simp add: analysisSummaryForEmail_def orNA_def)
  from arch summ conf same same' show ?thesis by blast
qed

theorem falsy_fields_render_placeholder_witness:
  "archType blankResult = [] \<and> summary blankResult = [] \<and> confidenceScore blankResult = Num 0
   \<and> analysisSummaryForEmail decimalText (Some blankResult)
       = analysisSummaryForEmail decimalText (Some (blankResult\<lparr>archType := ''N/A''\<rparr>))
   \<and> analysisSummaryForEmail decimalText (Some blankResult)
       = analysisSummaryForEmail decimalText (Some (blankResult\<lparr>summary := ''N/A''\<rparr>))
   \<and> (\<exists>before. analysisSummaryForEmail decimalText (Some blankResult)
                  = before @ ''Confidence Score: N/A%'' @ nl @ ''  '')"
proof -
  have h: "archType blankResult = []" "summary blankResult = []"
    "confidenceScore blankResult = Num 0"
    by (simp_all add: blankResult_def)
  show ?thesis using h falsy_fields_render_placeholder [of blankResult decimalText] by blast
qed

end
